theory Spec2Isabelle
  imports Main
begin

section \<open>Errors and values\<close>

text \<open>
  The exceptions that \<^verbatim>\<open>scrape.py\<close> can raise.  \<open>AssertionError\<close> carries the payload
  of the \<^verbatim>\<open>assert\<close> in \<^verbatim>\<open>extract_posting_urls\<close>, the pair
  \<^verbatim>\<open>(r.status_code, r.text)\<close>.  \<open>RequestException\<close> stands for whatever
  \<^verbatim>\<open>requests.get\<close> itself raises.
\<close>

datatype pyerr =
    AssertionError int string
  | TypeError
  | KeyError string
  | NameError string
  | IndexError
  | AttributeError
  | RequestException

text \<open>
  The objects that reach \<^verbatim>\<open>it.chain\<close> and \<^verbatim>\<open>print\<close>: a string, the generator
  object that a call \<^verbatim>\<open>extract_posting_urls(url)\<close> creates (it holds its argument and
  has not started its body), and a generator expression whose elements are computed
  without any effect.
\<close>

datatype pyval =
    Str string
  | GenObj string
  | GenExpr "pyval list"

section \<open>\<^verbatim>\<open>unwrap_url\<close>\<close>

text \<open>\<^verbatim>\<open>s.split(sep)\<close> for a one-character separator: always at least one piece.\<close>

fun py_split :: "string \<Rightarrow> char \<Rightarrow> string list" where
  "py_split [] sep = [[]]"
| "py_split (c # cs) sep =
     (if c = sep then [] # py_split cs sep
      else (case py_split cs sep of
              [] \<Rightarrow> [[c]]
            | piece # pieces \<Rightarrow> (c # piece) # pieces))"

text \<open>\<^verbatim>\<open>xs[i]\<close>: a negative index counts from the end, out of range raises.\<close>

definition py_getitem :: "'a list \<Rightarrow> int \<Rightarrow> pyerr + 'a" where
  "py_getitem xs i =
     (if 0 \<le> i \<and> i < int (length xs) then Inr (xs ! nat i)
      else if i < 0 \<and> - int (length xs) \<le> i then Inr (xs ! nat (int (length xs) + i))
      else Inl IndexError)"

text \<open>\<^verbatim>\<open>return href[2:].split('?')[0]\<close>\<close>

definition unwrap_url :: "string \<Rightarrow> pyerr + string" where
  "unwrap_url href = py_getitem (py_split (drop 2 href) (CHR ''?'')) 0"

section \<open>Listing-page URLs\<close>

text \<open>\<^verbatim>\<open>range(start, stop, step)\<close> for a positive step.\<close>

function py_range :: "int \<Rightarrow> int \<Rightarrow> int \<Rightarrow> int list" where
  "py_range start stop step =
     (if 0 < step \<and> start < stop then start # py_range (start + step) stop step else [])"
  by pat_completeness auto
termination
  by (relation "measure (\<lambda>(start, stop, step). nat (stop - start))") auto

declare py_range.simps [simp del]

text \<open>\<^verbatim>\<open>str(n)\<close> for an integer: its decimal digits, with a sign when negative.\<close>

definition digit_chr :: "nat \<Rightarrow> char" where
  "digit_chr d = ''0123456789'' ! d"

function str_nat :: "nat \<Rightarrow> string" where
  "str_nat n = (if n < 10 then [digit_chr n] else str_nat (n div 10) @ [digit_chr (n mod 10)])"
  by pat_completeness auto
termination
  by (relation "measure id") auto

declare str_nat.simps [simp del]

definition py_str_int :: "int \<Rightarrow> string" where
  "py_str_int i = (if i < 0 then CHR ''-'' # str_nat (nat (- i)) else str_nat (nat i))"

text \<open>
  \<^verbatim>\<open>template.format(arg)\<close> for a template with one \<^verbatim>\<open>{}\<close> slot and no other brace:
  the slot is replaced by the argument's string.
\<close>

fun py_format :: "string \<Rightarrow> string \<Rightarrow> string" where
  "py_format (c # d # cs) arg =
     (if c = CHR ''{'' \<and> d = CHR ''}'' then arg @ cs else c # py_format (d # cs) arg)"
| "py_format cs arg = cs"

definition base :: string where
  "base = ''https://www.rozee.pk/category/software-web-development-jobs/?fpn={}''"

text \<open>\<^verbatim>\<open>urls = (base.format(fpn) for fpn in range(0, 765, 20))\<close>, its elements in order.\<close>

definition offsets :: "int list" where
  "offsets = py_range 0 765 20"

definition urls :: "string list" where
  "urls = map (\<lambda>fpn. py_format base (py_str_int fpn)) offsets"

section \<open>The outside world\<close>

record response =
  status_code :: int
  resp_text :: string

text \<open>
  A heading found by \<^verbatim>\<open>find_all("h3", class_="s-18")\<close>, as far as the program looks at
  it: \<^verbatim>\<open>p.a\<close> is the first anchor below it (\<open>None\<close> when there is none), given by its
  attributes.
\<close>

datatype h3 = H3 (first_a: "(string \<times> string) list option")

text \<open>
  What the program calls and does not define: \<^verbatim>\<open>requests.get\<close> (the server's answer to
  a URL, or an exception), the headings BeautifulSoup's \<^verbatim>\<open>html.parser\<close> finds in a
  body for \<^verbatim>\<open>find_all("h3", class_="s-18")\<close>, and the address the runtime shows in the
  \<^verbatim>\<open>repr\<close> of an object.
\<close>

record env =
  requests_get :: "string \<Rightarrow> pyerr + response"
  find_all :: "string \<Rightarrow> h3 list"
  addr :: "pyval \<Rightarrow> string"

text \<open>The effects of a run: the GET requests issued and the lines printed, in order.\<close>

record world =
  requests :: "string list"
  stdout :: "string list"

section \<open>\<^verbatim>\<open>extract_posting_urls\<close>\<close>

text \<open>\<^verbatim>\<open>p.a['href']\<close>\<close>

definition href_of :: "h3 \<Rightarrow> pyerr + string" where
  "href_of p =
     (case first_a p of
        None \<Rightarrow> Inl TypeError
      | Some attrs \<Rightarrow>
          (case map_of attrs ''href'' of
             None \<Rightarrow> Inl (KeyError ''href'')
           | Some v \<Rightarrow> Inr v))"

text \<open>One element of \<^verbatim>\<open>(unwrap_url(p.a['href']) for p in postings)\<close>.\<close>

definition posting_url :: "h3 \<Rightarrow> pyerr + pyval" where
  "posting_url p =
     (case href_of p of
        Inl e \<Rightarrow> Inl e
      | Inr href \<Rightarrow> (case unwrap_url href of Inl e \<Rightarrow> Inl e | Inr u \<Rightarrow> Inr (Str u)))"

text \<open>
  \<^verbatim>\<open>extract_posting_urls\<close> contains \<^verbatim>\<open>yield from\<close>, so it is a generator function:
  calling it runs none of its body and returns a generator object.
\<close>

definition extract_posting_urls :: "string \<Rightarrow> pyval" where
  "extract_posting_urls url = GenObj url"

text \<open>
  A generator is finished by the first exception it raises: the elements it gives are
  those before the first failing one, then that failure, and nothing after it.
\<close>

fun until_raise :: "(pyerr + 'a) list \<Rightarrow> (pyerr + 'a) list" where
  "until_raise [] = []"
| "until_raise (Inl e # js) = [Inl e]"
| "until_raise (Inr j # js) = Inr j # until_raise js"

text \<open>
  The body runs when the generator object is iterated: the GET, the assertion on the
  status, the parse; then the elements, each computed when it is asked for, up to the
  first one that fails.
\<close>

definition extract_posting_urls_body ::
  "env \<Rightarrow> string \<Rightarrow> world \<Rightarrow> (pyerr + (pyerr + pyval) list) \<times> world" where
  "extract_posting_urls_body E url w =
     (let w1 = w\<lparr>requests := requests w @ [url]\<rparr> in
      case requests_get E url of
        Inl e \<Rightarrow> (Inl e, w1)
      | Inr r \<Rightarrow>
          if status_code r \<noteq> 200 then (Inl (AssertionError (status_code r) (resp_text r)), w1)
          else (Inr (until_raise (map posting_url (find_all E (resp_text r)))), w1))"

section \<open>Iteration, \<^verbatim>\<open>it.chain\<close> and \<^verbatim>\<open>print\<close>\<close>

text \<open>
  Iterating an object: the effects of starting it, then its elements.  A string gives
  its characters, a generator object of \<^verbatim>\<open>extract_posting_urls\<close> runs the body, a
  generator expression gives its elements.
\<close>

fun py_iter :: "env \<Rightarrow> pyval \<Rightarrow> world \<Rightarrow> (pyerr + (pyerr + pyval) list) \<times> world" where
  "py_iter E (Str s) w = (Inr (map (\<lambda>c. Inr (Str [c])) s), w)"
| "py_iter E (GenObj url) w = extract_posting_urls_body E url w"
| "py_iter E (GenExpr vs) w = (Inr (map Inr vs), w)"

text \<open>\<^verbatim>\<open>str(v)\<close>, as \<^verbatim>\<open>print\<close> writes it.\<close>

fun py_str :: "env \<Rightarrow> pyval \<Rightarrow> string" where
  "py_str E (Str s) = s"
| "py_str E (GenObj url) =
     ''<generator object collect_postings.<locals>.extract_posting_urls at 0x''
       @ addr E (GenObj url) @ ''>''"
| "py_str E (GenExpr vs) =
     ''<generator object collect_postings.<locals>.<genexpr> at 0x''
       @ addr E (GenExpr vs) @ ''>''"

text \<open>\<^verbatim>\<open>for j in items: print(j)\<close>: an element that fails to compute ends the loop.\<close>

fun print_each :: "env \<Rightarrow> (pyerr + pyval) list \<Rightarrow> world \<Rightarrow> (pyerr + unit) \<times> world" where
  "print_each E [] w = (Inr (), w)"
| "print_each E (Inl e # js) w = (Inl e, w)"
| "print_each E (Inr j # js) w = print_each E js (w\<lparr>stdout := stdout w @ [py_str E j]\<rparr>)"

text \<open>
  \<^verbatim>\<open>for j in it.chain(*iterables): print(j)\<close>: \<^verbatim>\<open>chain\<close> gives the elements of its
  first argument until it is exhausted, then those of the next argument.
\<close>

fun chain_print :: "env \<Rightarrow> pyval list \<Rightarrow> world \<Rightarrow> (pyerr + unit) \<times> world" where
  "chain_print E [] w = (Inr (), w)"
| "chain_print E (iterable # iterables) w =
     (case py_iter E iterable w of
        (Inl e, w1) \<Rightarrow> (Inl e, w1)
      | (Inr js, w1) \<Rightarrow>
          (case print_each E js w1 of
             (Inl e, w2) \<Rightarrow> (Inl e, w2)
           | (Inr u, w2) \<Rightarrow> chain_print E iterables w2))"

section \<open>\<^verbatim>\<open>collect_postings\<close>\<close>

text \<open>
  \<^verbatim>\<open>jobs = it.chain(extract_posting_urls(url) for url in urls)\<close>: \<^verbatim>\<open>chain\<close> gets one
  argument, the generator expression.
\<close>

definition collect_postings :: "env \<Rightarrow> world \<Rightarrow> (pyerr + unit) \<times> world" where
  "collect_postings E w = chain_print E [GenExpr (map extract_posting_urls urls)] w"

text \<open>The process exits with 0 when the run returns, with 1 on an uncaught exception.\<close>

definition exit_status :: "(pyerr + unit) \<times> world \<Rightarrow> int" where
  "exit_status res = (case fst res of Inl e \<Rightarrow> 1 | Inr u \<Rightarrow> 0)"

section \<open>The \<^verbatim>\<open>Posting\<close> class\<close>

text \<open>
  Objects as far as the class looks at them: an instance with its attributes, a string,
  and an object bound to a module-level name.
\<close>

datatype pyobj =
    Instance "(string \<times> pyobj) list"
  | StrObj string
  | Global string

text \<open>
  Calling a function whose parameters are all plain names without defaults, with
  positional arguments: the counts must agree, or the call raises \<^verbatim>\<open>TypeError\<close> before
  the body starts.
\<close>

definition bind_params :: "string list \<Rightarrow> pyobj list \<Rightarrow> pyerr + (string \<times> pyobj) list" where
  "bind_params params args =
     (if length args = length params then Inr (zip params args) else Inl TypeError)"

text \<open>
  The names bound at module level when the script has been loaded.  (None of the names
  the class bodies use is a builtin.)
\<close>

definition module_globals :: "string list" where
  "module_globals = [''requests'', ''BeautifulSoup'', ''it'', ''Posting'', ''collect_postings'']"

text \<open>Reading a name inside a function body: the locals, then the module's names.\<close>

definition lookup :: "(string \<times> pyobj) list \<Rightarrow> string \<Rightarrow> pyerr + pyobj" where
  "lookup locals name =
     (case map_of locals name of
        Some v \<Rightarrow> Inr v
      | None \<Rightarrow> if name \<in> set module_globals then Inr (Global name) else Inl (NameError name))"

text \<open>
  \<^verbatim>\<open>target.attr = source\<close> for two names: the right-hand side is evaluated first, then
  the target object; the result is the target with the attribute stored.
\<close>

definition assign_attr :: "(string \<times> pyobj) list \<Rightarrow> string \<Rightarrow> string \<Rightarrow> string \<Rightarrow> pyerr + pyobj" where
  "assign_attr locals target attr source =
     (case lookup locals source of
        Inl e \<Rightarrow> Inl e
      | Inr v \<Rightarrow>
          (case lookup locals target of
             Inl e \<Rightarrow> Inl e
           | Inr (Instance dict) \<Rightarrow> Inr (Instance ((attr, v) # dict))
           | Inr (StrObj s) \<Rightarrow> Inl AttributeError
           | Inr (Global g) \<Rightarrow> Inr (Global g)))"

text \<open>
  \<^verbatim>\<open>def __init__(title, url, description)\<close> with its three assignments through the name
  \<^verbatim>\<open>self\<close>, called with the given positional arguments.
\<close>

definition Posting_init :: "pyobj list \<Rightarrow> pyerr + unit" where
  "Posting_init args =
     (case bind_params [''title'', ''url'', ''description''] args of
        Inl e \<Rightarrow> Inl e
      | Inr locals \<Rightarrow>
          (case assign_attr locals ''self'' ''title'' ''title'' of
             Inl e \<Rightarrow> Inl e
           | Inr o1 \<Rightarrow>
               (case assign_attr locals ''self'' ''url'' ''url'' of
                  Inl e \<Rightarrow> Inl e
                | Inr o2 \<Rightarrow>
                    (case assign_attr locals ''self'' ''description'' ''description'' of
                       Inl e \<Rightarrow> Inl e
                     | Inr o3 \<Rightarrow> Inr ()))))"

text \<open>
  \<^verbatim>\<open>Posting(*args)\<close>: a fresh instance is created and \<^verbatim>\<open>__init__\<close> is called with it in
  front of the arguments; the instance is the result only when \<^verbatim>\<open>__init__\<close> returns.
\<close>

definition Posting :: "pyobj list \<Rightarrow> pyerr + pyobj" where
  "Posting args =
     (case Posting_init (Instance [] # args) of
        Inl e \<Rightarrow> Inl e
      | Inr u \<Rightarrow> Inr (Instance []))"

text \<open>\<^verbatim>\<open>obj.name\<close>\<close>

definition getattr :: "pyobj \<Rightarrow> string \<Rightarrow> pyerr + pyobj" where
  "getattr obj name =
     (case obj of
        Instance dict \<Rightarrow>
          (case map_of dict name of Some v \<Rightarrow> Inr v | None \<Rightarrow> Inl AttributeError)
      | StrObj s \<Rightarrow> Inl AttributeError
      | Global g \<Rightarrow> Inl AttributeError)"

text \<open>\<^verbatim>\<open>str(obj)\<close>; only a string's own text is determined by the program.\<close>

fun str_obj :: "pyobj \<Rightarrow> string" where
  "str_obj (StrObj s) = s"
| "str_obj (Instance dict) = ''<__main__.Posting object>''"
| "str_obj (Global g) = g"

text \<open>
  \<^verbatim>\<open>def format_row()\<close>, returning
  \<^verbatim>\<open>'{}, {}, {}'.format(self.title, self.description, self.url)\<close>, called with the given
  positional arguments (\<^verbatim>\<open>p.format_row()\<close> passes \<^verbatim>\<open>p\<close>, \<^verbatim>\<open>Posting.format_row()\<close>
  passes nothing).
\<close>

definition format_row :: "pyobj list \<Rightarrow> pyerr + string" where
  "format_row args =
     (case bind_params [] args of
        Inl e \<Rightarrow> Inl e
      | Inr locals \<Rightarrow>
          (case lookup locals ''self'' of
             Inl e \<Rightarrow> Inl e
           | Inr self1 \<Rightarrow>
               (case getattr self1 ''title'' of
                  Inl e \<Rightarrow> Inl e
                | Inr t \<Rightarrow>
                    (case lookup locals ''self'' of
                       Inl e \<Rightarrow> Inl e
                     | Inr self2 \<Rightarrow>
                         (case getattr self2 ''description'' of
                            Inl e \<Rightarrow> Inl e
                          | Inr d \<Rightarrow>
                              (case lookup locals ''self'' of
                                 Inl e \<Rightarrow> Inl e
                               | Inr self3 \<Rightarrow>
                                   (case getattr self3 ''url'' of
                                      Inl e \<Rightarrow> Inl e
                                    | Inr u \<Rightarrow>
                                        Inr (str_obj t @ '', '' @ str_obj d @ '', ''
                                               @ str_obj u))))))))"

section \<open>Test servers\<close>

text \<open>The world before the run: nothing requested, nothing printed.\<close>

definition w0 :: world where
  "w0 = \<lparr>requests = [], stdout = []\<rparr>"

definition url0 :: string where
  "url0 = ''https://www.rozee.pk/category/software-web-development-jobs/?fpn=0''"

text \<open>
  A server that answers 200 everywhere; the page for offset 0 has two matching headings,
  with anchors \<^verbatim>\<open>./job/abc?ref=1\<close> and \<^verbatim>\<open>./job/def\<close>, every other page has none.
\<close>

definition mock_env :: env where
  "mock_env =
     \<lparr>requests_get = (\<lambda>url. Inr \<lparr>status_code = 200,
                                   resp_text = (if url = url0 then ''page 0'' else ''empty'')\<rparr>),
      find_all = (\<lambda>body. if body = ''page 0''
                          then [H3 (Some [(''href'', ''./job/abc?ref=1'')]),
                                H3 (Some [(''href'', ''./job/def'')])]
                          else []),
      addr = (\<lambda>v. ''7f3a5c0d2e40'')\<rparr>"

text \<open>A server that answers 404 to every request.\<close>

definition env_404 :: env where
  "env_404 =
     \<lparr>requests_get = (\<lambda>url. Inr \<lparr>status_code = 404, resp_text = ''Not Found''\<rparr>),
      find_all = (\<lambda>body. []),
      addr = (\<lambda>v. ''7f3a5c0d2e40'')\<rparr>"

text \<open>
  A server that answers 200 everywhere; every page has three matching headings, the
  second of them without an anchor.
\<close>

definition env_no_anchor :: env where
  "env_no_anchor =
     \<lparr>requests_get = (\<lambda>url. Inr \<lparr>status_code = 200, resp_text = ''page''\<rparr>),
      find_all = (\<lambda>body. [H3 (Some [(''href'', ''./job/abc?ref=1'')]),
                          H3 None,
                          H3 (Some [(''href'', ''./job/def'')])]),
      addr = (\<lambda>v. ''7f3a5c0d2e40'')\<rparr>"

text \<open>
  A server that answers 200 everywhere; every page has two matching headings, the first
  of them with an anchor that has no \<^verbatim>\<open>href\<close>.
\<close>

definition env_no_href :: env where
  "env_no_href =
     \<lparr>requests_get = (\<lambda>url. Inr \<lparr>status_code = 200, resp_text = ''page''\<rparr>),
      find_all = (\<lambda>body. [H3 (Some [(''class'', ''title'')]),
                          H3 (Some [(''href'', ''./job/def'')])]),
      addr = (\<lambda>v. ''7f3a5c0d2e40'')\<rparr>"

text \<open>
  The strings (or the failures) that the generator object of one page gives when it is
  iterated.
\<close>

definition page_postings :: "env \<Rightarrow> string \<Rightarrow> (pyerr + pyval) list" where
  "page_postings E url =
     (case fst (py_iter E (extract_posting_urls url) w0) of Inl e \<Rightarrow> [] | Inr js \<Rightarrow> js)"

section \<open>Properties of \<^verbatim>\<open>unwrap_url\<close>\<close>

lemma py_split_nonempty: "py_split s sep \<noteq> []"
  by (induction s) (auto split: list.splits)

lemma hd_py_split: "hd (py_split s sep) = takeWhile (\<lambda>c. c \<noteq> sep) s"
  using py_split_nonempty [of _ sep]
  by (induction s) (auto split: list.splits)

lemma py_getitem_0: "xs \<noteq> [] \<Longrightarrow> py_getitem xs 0 = Inr (hd xs)"
  by (cases xs) (simp_all add: py_getitem_def)

lemma unwrap_url_eq: "unwrap_url href = Inr (takeWhile (\<lambda>c. c \<noteq> CHR ''?'') (drop 2 href))"
  by (simp add: unwrap_url_def py_getitem_0 py_split_nonempty hd_py_split)

text \<open>
  C6: \<^verbatim>\<open>unwrap_url\<close> returns \<^verbatim>\<open>foo/bar\<close> for \<^verbatim>\<open>./foo/bar?x=1&y=2\<close> and for
  \<^verbatim>\<open>./foo/bar\<close>; on every string it drops the first two characters and keeps what
  stands before the first \<^verbatim>\<open>?\<close> of the rest.
\<close>

theorem unwrap_url_normalizes:
  "unwrap_url ''./foo/bar?x=1&y=2'' = Inr ''foo/bar''
   \<and> unwrap_url ''./foo/bar'' = Inr ''foo/bar''
   \<and> (\<forall>href. unwrap_url href = Inr (takeWhile (\<lambda>c. c \<noteq> CHR ''?'') (drop 2 href)))"
  by (simp add: unwrap_url_eq)

text \<open>
  C9: \<^verbatim>\<open>unwrap_url\<close> returns a string on every string, never an exception, and on a
  string of at most two characters (such as \<^verbatim>\<open>./\<close> or the empty string) it returns the
  empty string.
\<close>

theorem unwrap_url_total:
  "(\<exists>s. unwrap_url href = Inr s) \<and> (length href \<le> 2 \<longrightarrow> unwrap_url href = Inr [])"
  by (simp add: unwrap_url_eq)

theorem unwrap_url_total_witness:
  "length ''./'' \<le> 2 \<and> unwrap_url ''./'' = Inr [] \<and> unwrap_url [] = Inr []"
  using unwrap_url_total [of "''./''"] unwrap_url_total [of "[]"] by simp

section \<open>The listing pages\<close>

lemma offsets_eq:
  "offsets = [0, 20, 40, 60, 80, 100, 120, 140, 160, 180, 200, 220, 240, 260, 280, 300, 320,
              340, 360, 380, 400, 420, 440, 460, 480, 500, 520, 540, 560, 580, 600, 620, 640,
              660, 680, 700, 720, 740, 760]"
  unfolding offsets_def by (simp add: py_range.simps)

lemma py_format_base:
  "py_format base arg =
     ''https://www.rozee.pk/category/software-web-development-jobs/?fpn='' @ arg"
  by (simp add: base_def)

lemma str_offsets:
  "map py_str_int offsets =
     [''0'', ''20'', ''40'', ''60'', ''80'', ''100'', ''120'', ''140'', ''160'', ''180'', ''200'',
      ''220'', ''240'', ''260'', ''280'', ''300'', ''320'', ''340'', ''360'', ''380'', ''400'',
      ''420'', ''440'', ''460'', ''480'', ''500'', ''520'', ''540'', ''560'', ''580'', ''600'',
      ''620'', ''640'', ''660'', ''680'', ''700'', ''720'', ''740'', ''760'']"
  unfolding offsets_eq by (simp add: py_str_int_def str_nat.simps digit_chr_def)

lemma urls_eq:
  "urls = map (\<lambda>n. ''https://www.rozee.pk/category/software-web-development-jobs/?fpn=''
                      @ py_str_int n) offsets"
  by (simp add: urls_def py_format_base)

lemma length_urls: "length urls = 39"
  by (simp add: urls_def offsets_eq)

lemma distinct_urls: "distinct urls"
proof -
  have "distinct (map py_str_int offsets)"
    unfolding str_offsets by simp
  then have "distinct (map ((@) ''https://www.rozee.pk/category/software-web-development-jobs/?fpn='')
                         (map py_str_int offsets))"
    by (simp add: distinct_map inj_on_def)
  then show ?thesis
    by (simp add: urls_eq comp_def)
qed

text \<open>
  C5: the offsets are \<open>0, 20, \<dots>, 760\<close>: 39 of them, which is 765 / 20 rounded up, strictly
  ascending, without duplicates, all below 765; there is one listing URL per offset, the
  URLs are distinct, and each is the template with \<^verbatim>\<open>{}\<close> replaced by the decimal string
  of its offset.
\<close>

theorem listing_urls_enumeration:
  "offsets = map (\<lambda>k. 20 * int k) [0..<39]
   \<and> length offsets = 39
   \<and> int (length offsets) = - ((- 765) div 20)
   \<and> sorted_wrt (<) offsets
   \<and> distinct offsets
   \<and> list_all (\<lambda>n. n < 765) offsets
   \<and> length urls = length offsets
   \<and> distinct urls
   \<and> urls = map (\<lambda>n. ''https://www.rozee.pk/category/software-web-development-jobs/?fpn=''
                        @ py_str_int n) offsets
   \<and> (\<forall>arg. py_format base arg =
         ''https://www.rozee.pk/category/software-web-development-jobs/?fpn='' @ arg)
   \<and> map py_str_int offsets =
       [''0'', ''20'', ''40'', ''60'', ''80'', ''100'', ''120'', ''140'', ''160'', ''180'', ''200'',
        ''220'', ''240'', ''260'', ''280'', ''300'', ''320'', ''340'', ''360'', ''380'', ''400'',
        ''420'', ''440'', ''460'', ''480'', ''500'', ''520'', ''540'', ''560'', ''580'', ''600'',
        ''620'', ''640'', ''660'', ''680'', ''700'', ''720'', ''740'', ''760'']"
proof -
  have "offsets = map (\<lambda>k. 20 * int k) [0..<39]"
    unfolding offsets_eq by (simp add: upt_rec)
  moreover have "length offsets = 39" "int (length offsets) = - ((- 765) div 20)"
    "sorted_wrt (<) offsets" "distinct offsets" "list_all (\<lambda>n. n < 765) offsets"
    unfolding offsets_eq by simp_all
  moreover have "length urls = length offsets"
    by (simp add: urls_def)
  ultimately show ?thesis
    using distinct_urls urls_eq py_format_base str_offsets by blast
qed

section \<open>What a run of \<^verbatim>\<open>collect_postings\<close> does\<close>

lemma print_each_values:
  "print_each E (map Inr vs) w = (Inr (), w\<lparr>stdout := stdout w @ map (py_str E) vs\<rparr>)"
  by (induction vs arbitrary: w) simp_all

lemma collect_postings_eq:
  "collect_postings E w =
     (Inr (), w\<lparr>stdout := stdout w @ map (\<lambda>url. py_str E (GenObj url)) urls\<rparr>)"
proof -
  have gens: "map extract_posting_urls urls = map GenObj urls"
    by (simp add: extract_posting_urls_def)
  have printed: "print_each E (map Inr (map GenObj urls)) w =
      (Inr (), w\<lparr>stdout := stdout w @ map (py_str E) (map GenObj urls)\<rparr>)"
    by (rule print_each_values)
  have "collect_postings E w =
      (Inr (), w\<lparr>stdout := stdout w @ map (py_str E) (map GenObj urls)\<rparr>)"
    unfolding collect_postings_def gens
    by (simp only: chain_print.simps py_iter.simps printed prod.case sum.case)
  then show ?thesis
    by (simp only: map_map comp_def)
qed

lemma hd_urls: "hd urls = url0"
  by (simp add: urls_eq offsets_eq url0_def py_str_int_def str_nat.simps digit_chr_def)

lemma urls_nonempty: "urls \<noteq> []"
  using length_urls by auto

text \<open>
  C2: \<^verbatim>\<open>it.chain\<close> receives the generator expression as its only argument, so the loop
  prints its elements, the 39 generator objects: whatever the server and the parser
  would answer, the run issues no request, prints 39 lines, each the \<^verbatim>\<open>repr\<close> of a
  generator object of \<^verbatim>\<open>extract_posting_urls\<close>, and returns normally (exit status 0).
\<close>

theorem collect_postings_prints_generators:
  "collect_postings E w =
     (Inr (), w\<lparr>stdout := stdout w @
        map (\<lambda>url. ''<generator object collect_postings.<locals>.extract_posting_urls at 0x''
                      @ addr E (GenObj url) @ ''>'') urls\<rparr>)
   \<and> requests (snd (collect_postings E w)) = requests w
   \<and> length (stdout (snd (collect_postings E w))) = length (stdout w) + 39
   \<and> exit_status (collect_postings E w) = 0"
  by (simp add: collect_postings_eq exit_status_def length_urls)

section \<open>The generator body, when it is iterated\<close>

lemma body_mock_page0:
  "py_iter mock_env (extract_posting_urls url0) w =
     (Inr [Inr (Str ''job/abc''), Inr (Str ''job/def'')], w\<lparr>requests := requests w @ [url0]\<rparr>)"
  by (simp add: extract_posting_urls_def extract_posting_urls_body_def mock_env_def
      posting_url_def href_of_def unwrap_url_eq)

lemma body_mock_other:
  "url \<noteq> url0 \<Longrightarrow>
   py_iter mock_env (extract_posting_urls url) w = (Inr [], w\<lparr>requests := requests w @ [url]\<rparr>)"
  by (simp add: extract_posting_urls_def extract_posting_urls_body_def mock_env_def)

lemma body_404:
  "py_iter env_404 (extract_posting_urls url) w =
     (Inl (AssertionError 404 ''Not Found''), w\<lparr>requests := requests w @ [url]\<rparr>)"
  by (simp add: extract_posting_urls_def extract_posting_urls_body_def env_404_def)

lemma body_no_anchor:
  "py_iter env_no_anchor (extract_posting_urls url) w =
     (Inr [Inr (Str ''job/abc''), Inl TypeError], w\<lparr>requests := requests w @ [url]\<rparr>)"
  by (simp add: extract_posting_urls_def extract_posting_urls_body_def env_no_anchor_def
      posting_url_def href_of_def unwrap_url_eq)

lemma body_no_href:
  "py_iter env_no_href (extract_posting_urls url) w =
     (Inr [Inl (KeyError ''href'')], w\<lparr>requests := requests w @ [url]\<rparr>)"
  by (simp add: extract_posting_urls_def extract_posting_urls_body_def env_no_href_def
      posting_url_def href_of_def)

lemma page_postings_mock:
  "page_postings mock_env url =
     (if url = url0 then [Inr (Str ''job/abc''), Inr (Str ''job/def'')] else [])"
  by (simp add: page_postings_def body_mock_page0 body_mock_other)

lemma concat_page_postings_mock:
  "concat (map (page_postings mock_env) urls) = [Inr (Str ''job/abc''), Inr (Str ''job/def'')]"
proof -
  have "urls = hd urls # tl urls"
    using urls_nonempty by simp
  then obtain us where us: "urls = url0 # us"
    unfolding hd_urls by blast
  have "distinct (url0 # us)"
    using distinct_urls unfolding us .
  then have "url0 \<notin> set us"
    by simp
  then have "concat (map (page_postings mock_env) us) = []"
    by (induction us) (auto simp: page_postings_mock)
  then show ?thesis
    by (simp add: us page_postings_mock)
qed

text \<open>
  C1 on the code: with the server whose page for offset 0 yields \<^verbatim>\<open>job/abc\<close> and
  \<^verbatim>\<open>job/def\<close> and whose other pages yield nothing, the concatenation of the per-page
  lists is these two strings, but the run prints 39 lines, the first of them the
  \<^verbatim>\<open>repr\<close> of a generator object.
\<close>

theorem collect_postings_not_concat:
  "concat (map (page_postings mock_env) urls) = [Inr (Str ''job/abc''), Inr (Str ''job/def'')]
   \<and> stdout (snd (collect_postings mock_env w0)) \<noteq> [''job/abc'', ''job/def'']
   \<and> hd (stdout (snd (collect_postings mock_env w0))) =
       ''<generator object collect_postings.<locals>.extract_posting_urls at 0x7f3a5c0d2e40>''"
proof -
  have "length (stdout (snd (collect_postings mock_env w0))) = 39"
    by (simp add: collect_postings_eq length_urls w0_def)
  then have "stdout (snd (collect_postings mock_env w0)) \<noteq> [''job/abc'', ''job/def'']"
    by auto
  moreover have "hd (stdout (snd (collect_postings mock_env w0))) =
      ''<generator object collect_postings.<locals>.extract_posting_urls at 0x7f3a5c0d2e40>''"
    using urls_nonempty by (simp add: collect_postings_eq w0_def hd_map mock_env_def)
  ultimately show ?thesis
    using concat_page_postings_mock by simp
qed

text \<open>
  C3 on the code: with that server the run exits with status 0, but it has printed 39
  lines, not the two lines \<^verbatim>\<open>job/abc\<close> and \<^verbatim>\<open>job/def\<close>, although the generator object for
  offset 0 would yield exactly these two strings if it were iterated.
\<close>

theorem end_to_end_scenario_on_code:
  "py_iter mock_env (extract_posting_urls (hd urls)) w0 =
     (Inr [Inr (Str ''job/abc''), Inr (Str ''job/def'')], w0\<lparr>requests := [hd urls]\<rparr>)
   \<and> exit_status (collect_postings mock_env w0) = 0
   \<and> length (stdout (snd (collect_postings mock_env w0))) = 39
   \<and> ''job/abc'' \<notin> set (stdout (snd (collect_postings mock_env w0)))
   \<and> ''job/def'' \<notin> set (stdout (snd (collect_postings mock_env w0)))"
  by (auto simp: hd_urls body_mock_page0 collect_postings_eq exit_status_def length_urls w0_def)

text \<open>
  C4 on the code: with a server that answers 404 everywhere, the body of the generator
  would fail its assertion with the status and the response text, but the run never
  starts a body: it returns normally with 39 lines printed.
\<close>

theorem non_200_on_code:
  "py_iter env_404 (extract_posting_urls (hd urls)) w0 =
     (Inl (AssertionError 404 ''Not Found''), w0\<lparr>requests := [hd urls]\<rparr>)
   \<and> fst (collect_postings env_404 w0) = Inr ()
   \<and> exit_status (collect_postings env_404 w0) = 0
   \<and> length (stdout (snd (collect_postings env_404 w0))) = 39"
  by (simp add: body_404 collect_postings_eq exit_status_def length_urls w0_def)

text \<open>
  C7 on the code: on a page whose second matching heading has no anchor, iterating the
  generator would give the first posting and then end with \<^verbatim>\<open>TypeError\<close>; on a page
  whose first matching heading has an anchor without \<^verbatim>\<open>href\<close>, it would end at once
  with \<^verbatim>\<open>KeyError\<close>.  The run never iterates a generator: with either server it returns
  normally with 39 lines printed.
\<close>

theorem missing_anchor_on_code:
  "py_iter env_no_anchor (extract_posting_urls (hd urls)) w0 =
     (Inr [Inr (Str ''job/abc''), Inl TypeError], w0\<lparr>requests := [hd urls]\<rparr>)
   \<and> py_iter env_no_href (extract_posting_urls (hd urls)) w0 =
       (Inr [Inl (KeyError ''href'')], w0\<lparr>requests := [hd urls]\<rparr>)
   \<and> fst (collect_postings env_no_anchor w0) = Inr ()
   \<and> exit_status (collect_postings env_no_anchor w0) = 0
   \<and> length (stdout (snd (collect_postings env_no_anchor w0))) = 39
   \<and> fst (collect_postings env_no_href w0) = Inr ()
   \<and> exit_status (collect_postings env_no_href w0) = 0
   \<and> length (stdout (snd (collect_postings env_no_href w0))) = 39"
  by (simp add: body_no_anchor body_no_href collect_postings_eq exit_status_def length_urls
      w0_def)

text \<open>
  C8 on the code: iterating one generator object issues one GET, to its URL; the run
  issues none, so the requests it makes are not the 39 listing URLs.
\<close>

theorem no_get_on_code:
  "requests (snd (py_iter mock_env (extract_posting_urls (hd urls)) w0)) = [hd urls]
   \<and> requests (snd (collect_postings mock_env w0)) = []
   \<and> requests (snd (collect_postings mock_env w0)) \<noteq> urls"
  using urls_nonempty
  by (auto simp: hd_urls body_mock_page0 collect_postings_eq w0_def)

section \<open>The \<^verbatim>\<open>Posting\<close> class cannot be used\<close>

lemma lookup_self_init:
  "lookup (zip [''title'', ''url'', ''description''] args) ''self'' = Inl (NameError ''self'')"
proof -
  have "''self'' \<notin> set (map fst (zip [''title'', ''url'', ''description''] args))"
    by (auto dest!: set_zip_leftD)
  then have "map_of (zip [''title'', ''url'', ''description''] args) ''self'' = None"
    by (simp add: map_of_eq_None_iff)
  then show ?thesis
    by (simp add: lookup_def module_globals_def)
qed

lemma Posting_init_fails: "\<exists>e. Posting_init args = Inl e"
proof (cases "length args = 3")
  case True
  then obtain x y z where args: "args = [x, y, z]"
    by (auto simp: length_Suc_conv numeral_3_eq_3)
  have "lookup (zip [''title'', ''url'', ''description''] args) ''title'' = Inr x"
    by (simp add: args lookup_def)
  then have "assign_attr (zip [''title'', ''url'', ''description''] args) ''self'' ''title'' ''title''
      = Inl (NameError ''self'')"
    by (simp add: assign_attr_def lookup_self_init)
  then show ?thesis
    using True by (simp add: Posting_init_def bind_params_def)
next
  case False
  then show ?thesis
    by (simp add: Posting_init_def bind_params_def)
qed

lemma format_row_fails: "\<exists>e. format_row args = Inl e"
proof (cases args)
  case Nil
  then show ?thesis
    by (simp add: format_row_def bind_params_def lookup_def module_globals_def)
next
  case (Cons x xs)
  then show ?thesis
    by (simp add: format_row_def bind_params_def)
qed

text \<open>
  C10: a call \<^verbatim>\<open>Posting(title, url, description)\<close> raises \<^verbatim>\<open>TypeError\<close> (four arguments
  for the three parameters of \<^verbatim>\<open>__init__\<close>); a call with any other arguments raises as
  well (with two arguments the body runs and fails on the name \<^verbatim>\<open>self\<close>), so no call
  returns an instance; and every call of \<^verbatim>\<open>format_row\<close> raises, on an instance
  (\<^verbatim>\<open>TypeError\<close>) and on the class (\<^verbatim>\<open>NameError\<close>).
\<close>

theorem Posting_unusable:
  "Posting [title, url, description] = Inl TypeError
   \<and> (\<forall>args. \<exists>e. Posting args = Inl e)
   \<and> Posting [title, url] = Inl (NameError ''self'')
   \<and> (\<forall>args. \<exists>e. format_row args = Inl e)
   \<and> format_row [p] = Inl TypeError
   \<and> format_row [] = Inl (NameError ''self'')"
proof -
  have "Posting [title, url, description] = Inl TypeError"
    by (simp add: Posting_def Posting_init_def bind_params_def)
  moreover have "\<exists>e. Posting args = Inl e" for args
    using Posting_init_fails [of "Instance [] # args"] by (auto simp: Posting_def)
  moreover have "Posting [title, url] = Inl (NameError ''self'')"
    by (simp add: Posting_def Posting_init_def bind_params_def assign_attr_def lookup_def
        module_globals_def)
  moreover have "format_row [p] = Inl TypeError"
    by (simp add: format_row_def bind_params_def)
  moreover have "format_row [] = Inl (NameError ''self'')"
    by (simp add: format_row_def bind_params_def lookup_def module_globals_def)
  ultimately show ?thesis
    using format_row_fails by blast
qed

end
